theory Spec2Isabelle
  imports Complex_Main
begin

section \<open>JSON values and Python truthiness\<close>

text \<open>
  A Python \<open>float\<close> as \<open>json.loads\<close> yields it: not-a-number, the two infinities,
  negative zero, or a finite value (every finite double is a rational number; the
  model does not restrict the rationals to doubles).
\<close>

datatype pyfloat = NaN | PosInf | NegInf | NegZero | Finite rat

text \<open>
  Tool-call arguments are JSON documents as Python holds them. A string is the
  sequence of its UTF-8 bytes. A JSON object is an association list read with
  \<open>map_of\<close>, which is the dictionary the Python code queries with \<open>args.get\<close>.
\<close>

datatype json =
    JNull
  | JBool bool
  | JInt int
  | JFloat pyfloat
  | JStr string
  | JArr "json list"
  | JObj "(string \<times> json) list"

text \<open>
  Python's truth value, as tested by \<open>if not x\<close>. A float is false when it equals
  zero; not-a-number and the infinities are true.
\<close>

fun float_truthy :: "pyfloat \<Rightarrow> bool" where
  "float_truthy NegZero = False"
| "float_truthy (Finite q) = (q \<noteq> 0)"
| "float_truthy f = True"

fun truthy :: "json \<Rightarrow> bool" where
  "truthy JNull = False"
| "truthy (JBool b) = b"
| "truthy (JInt n) = (n \<noteq> 0)"
| "truthy (JFloat f) = float_truthy f"
| "truthy (JStr s) = (s \<noteq> [])"
| "truthy (JArr xs) = (xs \<noteq> [])"
| "truthy (JObj kvs) = (kvs \<noteq> [])"

text \<open>\<open>args.get(k, default)\<close>; \<open>args.get(k)\<close> is \<open>dict_get args k JNull\<close>.\<close>

definition dict_get :: "(string \<times> json) list \<Rightarrow> string \<Rightarrow> json \<Rightarrow> json" where
  "dict_get d k dflt = (case map_of d k of None \<Rightarrow> dflt | Some v \<Rightarrow> v)"

section \<open>Request envelope\<close>

text \<open>\<open>arguments: str | dict\<close>\<close>

datatype arguments = ArgStr string | ArgDict "(string \<times> json) list"

record ToolCallFunction =
  name :: string
  arguments :: arguments

record ToolCall =
  tc_id :: string
  func :: ToolCallFunction

text \<open>
  A request is the list \<open>request.message.toolCalls\<close>. An \<open>HTTPException\<close> carries
  its status code and detail; any other exception escaping a handler is answered by
  the framework with status 500 and is the value \<open>ServerError\<close>.
\<close>

datatype error = HTTPException nat string | ServerError

fun status_code :: "error \<Rightarrow> nat" where
  "status_code (HTTPException c d) = c"
| "status_code ServerError = 500"

text \<open>
  \<open>if isinstance(args, str): args = json.loads(args)\<close>. The parser \<open>json_loads\<close>
  is a parameter (\<open>None\<close> when it raises). The value parsed need not be an object;
  a value without a \<open>get\<close> method makes the first \<open>args.get\<close> raise.
\<close>

definition load_args ::
  "(string \<Rightarrow> json option) \<Rightarrow> arguments \<Rightarrow> error + (string \<times> json) list" where
  "load_args json_loads a =
     (case a of
        ArgDict d \<Rightarrow> Inr d
      | ArgStr s \<Rightarrow>
          (case json_loads s of
             None \<Rightarrow> Inl ServerError
           | Some j \<Rightarrow> (case j of JObj d \<Rightarrow> Inr d | _ \<Rightarrow> Inl ServerError)))"

section \<open>The storage engine\<close>

text \<open>
  What the storage engine and its driver do with the values the handlers pass is
  not in the handlers' code. Three of its conversions are parameters of the model:
  the integer the engine reads a text as when it compares the text with an integer
  key (\<open>None\<close> when the text equals no integer), the text it renders a real number
  as when it stores the number in a text column, and the timestamp a timestamp
  column gives back (the column keeps no UTC offset).
\<close>

record 't engine =
  text_key :: "string \<Rightarrow> int option"
  real_text :: "pyfloat \<Rightarrow> string"
  naive :: "'t \<Rightarrow> 't"

text \<open>Integers of the store are signed 64-bit.\<close>

definition max_key :: int where
  "max_key = 2 ^ 63 - 1"

text \<open>
  The driver binds null, booleans, floats, strings, and integers that fit in 64
  bits; for an integer out of range, a list or an object the statement raises.
  (The engine's limit on the length of a text is outside the model.)
\<close>

fun bindable :: "json \<Rightarrow> bool" where
  "bindable (JInt n) = (- max_key - 1 \<le> n \<and> n \<le> max_key)"
| "bindable (JArr xs) = False"
| "bindable (JObj kvs) = False"
| "bindable v = True"

text \<open>The decimal numeral of an integer.\<close>

function decimal_pos :: "int \<Rightarrow> string" where
  "decimal_pos n =
     (if n < 10 then [''0123456789'' ! nat n]
      else decimal_pos (n div 10) @ [''0123456789'' ! nat (n mod 10)])"
  by pat_completeness auto
termination
  by (relation "measure nat") auto

declare decimal_pos.simps [simp del]

definition decimal :: "int \<Rightarrow> string" where
  "decimal n = (if n < 0 then CHR ''-'' # decimal_pos (- n) else decimal_pos n)"

text \<open>
  What a text column holds after a bindable value is stored in it: null or a text,
  written \<open>JNull\<close> and \<open>JStr\<close>. A number is stored as its text, a boolean as the
  text of 1 or 0, and not-a-number as null.
\<close>

fun sql_text :: "'t engine \<Rightarrow> json \<Rightarrow> json" where
  "sql_text E JNull = JNull"
| "sql_text E (JBool b) = JStr (if b then ''1'' else ''0'')"
| "sql_text E (JInt n) = JStr (decimal n)"
| "sql_text E (JFloat NaN) = JNull"
| "sql_text E (JFloat f) = JStr (real_text E f)"
| "sql_text E v = v"

text \<open>
  The integer key a bound value equals in \<open>Model.id == value\<close>, if any. A Python
  boolean is the integer 0 or 1; a float equals a key when it is a whole number;
  a text is read by the engine; null and not-a-number equal no key.
\<close>

fun float_key :: "pyfloat \<Rightarrow> int option" where
  "float_key (Finite q) = (if of_int \<lfloor>q\<rfloor> = q then Some \<lfloor>q\<rfloor> else None)"
| "float_key NegZero = Some 0"
| "float_key f = None"

fun key_of :: "'t engine \<Rightarrow> json \<Rightarrow> int option" where
  "key_of E (JInt n) = Some n"
| "key_of E (JBool b) = Some (if b then 1 else 0)"
| "key_of E (JFloat f) = float_key f"
| "key_of E (JStr s) = text_key E s"
| "key_of E v = None"

definition key_eq :: "'t engine \<Rightarrow> int \<Rightarrow> json \<Rightarrow> bool" where
  "key_eq E i v = (key_of E v = Some i)"

section \<open>Tables\<close>

record Todo =
  todo_id :: int
  todo_title :: json
  todo_description :: json
  completed :: bool

record Reminder =
  reminder_id :: int
  reminder_text :: json
  importance :: json

record 't CalendarEvent =
  event_id :: int
  event_title :: json
  event_description :: json
  event_from :: 't
  event_to :: 't

record 't db =
  todos :: "Todo list"
  reminders :: "Reminder list"
  calendar_events :: "'t CalendarEvent list"

definition empty_db :: "'t db" where
  "empty_db = \<lparr>todos = [], reminders = [], calendar_events = []\<rparr>"

text \<open>
  The integer primary key of a new row: one more than the largest key in use,
  1 in an empty table. When the largest key is the greatest 64-bit integer the
  engine tries unused keys at random and the insert can fail; the model lets it
  fail.
\<close>

definition next_id :: "int list \<Rightarrow> int" where
  "next_id ids = fold max ids 0 + 1"

text \<open>\<open>db.add(row); db.commit(); db.refresh(row)\<close>: \<open>None\<close> when the statement
  raises, else the row as the table holds it and the store with it.\<close>

definition add_todo :: "'t engine \<Rightarrow> json \<Rightarrow> json \<Rightarrow> 't db \<Rightarrow> 't db option" where
  "add_todo E title description db =
     (if bindable title \<and> bindable description
         \<and> next_id (map todo_id (todos db)) \<le> max_key
      then Some (db\<lparr>todos := todos db @
             [\<lparr>todo_id = next_id (map todo_id (todos db)), todo_title = sql_text E title,
               todo_description = sql_text E description, completed = False\<rparr>]\<rparr>)
      else None)"

definition add_reminder_row ::
  "'t engine \<Rightarrow> json \<Rightarrow> json \<Rightarrow> 't db \<Rightarrow> (Reminder \<times> 't db) option" where
  "add_reminder_row E text imp db =
     (if bindable text \<and> bindable imp
         \<and> next_id (map reminder_id (reminders db)) \<le> max_key
      then (let r = \<lparr>reminder_id = next_id (map reminder_id (reminders db)),
                      reminder_text = sql_text E text, importance = sql_text E imp\<rparr>
            in Some (r, db\<lparr>reminders := reminders db @ [r]\<rparr>))
      else None)"

definition add_event_row ::
  "'t engine \<Rightarrow> json \<Rightarrow> json \<Rightarrow> 't \<Rightarrow> 't \<Rightarrow> 't db \<Rightarrow> ('t CalendarEvent \<times> 't db) option" where
  "add_event_row E title description efrom eto db =
     (if bindable title \<and> bindable description
         \<and> next_id (map event_id (calendar_events db)) \<le> max_key
      then (let e = \<lparr>event_id = next_id (map event_id (calendar_events db)),
                      event_title = sql_text E title,
                      event_description = sql_text E description,
                      event_from = naive E efrom, event_to = naive E eto\<rparr>
            in Some (e, db\<lparr>calendar_events := calendar_events db @ [e]\<rparr>))
      else None)"

section \<open>Response envelope\<close>

text \<open>
  The serialised form of an entity has the fields of its row, so a payload carries
  rows. \<open>Deleted v\<close> is the object \<open>{'id': v, 'deleted': True}\<close>, with the id as
  the request supplied it.
\<close>

datatype 't payload =
    Success
  | TodoList "Todo list"
  | ReminderObj Reminder
  | ReminderList "Reminder list"
  | EventObj "'t CalendarEvent"
  | EventList "'t CalendarEvent list"
  | Deleted json

record 't tool_result =
  toolCallId :: string
  result :: "'t payload"

record 't response =
  results :: "'t tool_result list"

definition respond :: "ToolCall \<Rightarrow> 't payload \<Rightarrow> 't response" where
  "respond tool_call p = \<lparr>results = [\<lparr>toolCallId = tc_id tool_call, result = p\<rparr>]\<rparr>"

text \<open>
  \<open>XResponse.from_orm(row)\<close> validates the row against the response model. A field
  declared \<open>str\<close> rejects a null column and the validation error escapes the handler;
  a field declared \<open>Union[str, None]\<close> accepts it.
\<close>

definition TodoResponse_from_orm :: "Todo \<Rightarrow> Todo option" where
  "TodoResponse_from_orm t = (if todo_title t = JNull then None else Some t)"

definition ReminderResponse_from_orm :: "Reminder \<Rightarrow> Reminder option" where
  "ReminderResponse_from_orm r =
     (if reminder_text r = JNull \<or> importance r = JNull then None else Some r)"

definition CalendarEventResponse_from_orm :: "'t CalendarEvent \<Rightarrow> 't CalendarEvent option" where
  "CalendarEventResponse_from_orm e = (if event_title e = JNull then None else Some e)"

section \<open>Endpoints\<close>

text \<open>
  Each handler takes the tool calls and the store and returns what it answers
  (an error or a response) together with the store it leaves behind.
\<close>

type_synonym 't outcome = "(error + 't response) \<times> 't db"

definition create_todo ::
  "(string \<Rightarrow> json option) \<Rightarrow> 't engine \<Rightarrow> ToolCall list \<Rightarrow> 't db \<Rightarrow> 't outcome" where
  "create_todo json_loads E calls db =
     (case find (\<lambda>tc. name (func tc) = ''createTodo'') calls of
        None \<Rightarrow> (Inl (HTTPException 400 ''Invalid Request''), db)
      | Some tool_call \<Rightarrow>
          (case load_args json_loads (arguments (func tool_call)) of
             Inl e \<Rightarrow> (Inl e, db)
           | Inr args \<Rightarrow>
               (let title = dict_get args ''title'' (JStr '''');
                    description = dict_get args ''description'' (JStr '''')
                in case add_todo E title description db of
                     None \<Rightarrow> (Inl ServerError, db)
                   | Some db' \<Rightarrow> (Inr (respond tool_call Success), db'))))"

definition get_todos :: "ToolCall list \<Rightarrow> 't db \<Rightarrow> 't outcome" where
  "get_todos calls db =
     (case find (\<lambda>tc. name (func tc) = ''getTodos'') calls of
        None \<Rightarrow> (Inl (HTTPException 400 ''Invalid Request''), db)
      | Some tool_call \<Rightarrow>
          (case those (map TodoResponse_from_orm (todos db)) of
             None \<Rightarrow> (Inl ServerError, db)
           | Some rs \<Rightarrow> (Inr (respond tool_call (TodoList rs)), db)))"

definition complete_todo ::
  "(string \<Rightarrow> json option) \<Rightarrow> 't engine \<Rightarrow> ToolCall list \<Rightarrow> 't db \<Rightarrow> 't outcome" where
  "complete_todo json_loads E calls db =
     (case find (\<lambda>tc. name (func tc) = ''completeTodo'') calls of
        None \<Rightarrow> (Inl (HTTPException 400 ''Invalid Request''), db)
      | Some tool_call \<Rightarrow>
          (case load_args json_loads (arguments (func tool_call)) of
             Inl e \<Rightarrow> (Inl e, db)
           | Inr args \<Rightarrow>
               (let id_arg = dict_get args ''id'' JNull
                in if \<not> truthy id_arg then (Inl (HTTPException 400 ''Missing To-Do ID''), db)
                   else if \<not> bindable id_arg then (Inl ServerError, db)
                   else case find (\<lambda>t. key_eq E (todo_id t) id_arg) (todos db) of
                          None \<Rightarrow> (Inl (HTTPException 404 ''Todo not found''), db)
                        | Some todo \<Rightarrow>
                            (Inr (respond tool_call Success),
                             db\<lparr>todos := map (\<lambda>t. if todo_id t = todo_id todo
                                                   then t\<lparr>completed := True\<rparr> else t)
                                              (todos db)\<rparr>))))"

definition delete_todo ::
  "(string \<Rightarrow> json option) \<Rightarrow> 't engine \<Rightarrow> ToolCall list \<Rightarrow> 't db \<Rightarrow> 't outcome" where
  "delete_todo json_loads E calls db =
     (case find (\<lambda>tc. name (func tc) = ''deleteTodo'') calls of
        None \<Rightarrow> (Inl (HTTPException 400 ''Invalid Request''), db)
      | Some tool_call \<Rightarrow>
          (case load_args json_loads (arguments (func tool_call)) of
             Inl e \<Rightarrow> (Inl e, db)
           | Inr args \<Rightarrow>
               (let id_arg = dict_get args ''id'' JNull
                in if \<not> truthy id_arg then (Inl (HTTPException 400 ''Missing To-Do ID''), db)
                   else if \<not> bindable id_arg then (Inl ServerError, db)
                   else case find (\<lambda>t. key_eq E (todo_id t) id_arg) (todos db) of
                          None \<Rightarrow> (Inl (HTTPException 404 ''Todo not found''), db)
                        | Some todo \<Rightarrow>
                            (Inr (respond tool_call Success),
                             db\<lparr>todos := filter (\<lambda>t. todo_id t \<noteq> todo_id todo)
                                                 (todos db)\<rparr>))))"

definition add_reminder ::
  "(string \<Rightarrow> json option) \<Rightarrow> 't engine \<Rightarrow> ToolCall list \<Rightarrow> 't db \<Rightarrow> 't outcome" where
  "add_reminder json_loads E calls db =
     (case find (\<lambda>tc. name (func tc) = ''addReminder'') calls of
        None \<Rightarrow> (Inl (HTTPException 400 ''Invalid request''), db)
      | Some tool_call \<Rightarrow>
          (case load_args json_loads (arguments (func tool_call)) of
             Inl e \<Rightarrow> (Inl e, db)
           | Inr args \<Rightarrow>
               (let text = dict_get args ''reminder_text'' JNull;
                    imp = dict_get args ''importance'' JNull
                in if \<not> truthy text \<or> \<not> truthy imp
                   then (Inl (HTTPException 400 ''Missing required fields''), db)
                   else case add_reminder_row E text imp db of
                          None \<Rightarrow> (Inl ServerError, db)
                        | Some (reminder, db') \<Rightarrow>
                            (case ReminderResponse_from_orm reminder of
                               None \<Rightarrow> (Inl ServerError, db')
                             | Some r \<Rightarrow> (Inr (respond tool_call (ReminderObj r)), db')))))"

definition get_reminders :: "ToolCall list \<Rightarrow> 't db \<Rightarrow> 't outcome" where
  "get_reminders calls db =
     (case find (\<lambda>tc. name (func tc) = ''getReminders'') calls of
        None \<Rightarrow> (Inl (HTTPException 400 ''Invalid request''), db)
      | Some tool_call \<Rightarrow>
          (case those (map ReminderResponse_from_orm (reminders db)) of
             None \<Rightarrow> (Inl ServerError, db)
           | Some rs \<Rightarrow> (Inr (respond tool_call (ReminderList rs)), db)))"

definition delete_reminder ::
  "(string \<Rightarrow> json option) \<Rightarrow> 't engine \<Rightarrow> ToolCall list \<Rightarrow> 't db \<Rightarrow> 't outcome" where
  "delete_reminder json_loads E calls db =
     (case find (\<lambda>tc. name (func tc) = ''deleteReminder'') calls of
        None \<Rightarrow> (Inl (HTTPException 400 ''Invalid request''), db)
      | Some tool_call \<Rightarrow>
          (case load_args json_loads (arguments (func tool_call)) of
             Inl e \<Rightarrow> (Inl e, db)
           | Inr args \<Rightarrow>
               (let id_arg = dict_get args ''id'' JNull
                in if \<not> truthy id_arg then (Inl (HTTPException 400 ''Missing reminder ID''), db)
                   else if \<not> bindable id_arg then (Inl ServerError, db)
                   else case find (\<lambda>r. key_eq E (reminder_id r) id_arg) (reminders db) of
                          None \<Rightarrow> (Inl (HTTPException 404 ''Reminder not found''), db)
                        | Some reminder \<Rightarrow>
                            (Inr (respond tool_call (Deleted id_arg)),
                             db\<lparr>reminders := filter (\<lambda>r. reminder_id r \<noteq> reminder_id reminder)
                                                     (reminders db)\<rparr>))))"

text \<open>
  \<open>dt.datetime.fromisoformat\<close> is a parameter on strings (\<open>None\<close> when it raises
  \<open>ValueError\<close>, which the handler catches); on a value that is not a string it
  raises \<open>TypeError\<close>, which the handler does not catch.
\<close>

definition parse_datetime :: "(string \<Rightarrow> 't option) \<Rightarrow> json \<Rightarrow> error + 't" where
  "parse_datetime fromisoformat v =
     (case v of
        JStr s \<Rightarrow> (case fromisoformat s of
                     None \<Rightarrow> Inl (HTTPException 400 ''Invalid date format. Use ISO format.'')
                   | Some d \<Rightarrow> Inr d)
      | _ \<Rightarrow> Inl ServerError)"

definition add_calendar_entry ::
  "(string \<Rightarrow> json option) \<Rightarrow> (string \<Rightarrow> 't option) \<Rightarrow> 't engine \<Rightarrow>
   ToolCall list \<Rightarrow> 't db \<Rightarrow> 't outcome" where
  "add_calendar_entry json_loads fromisoformat E calls db =
     (case find (\<lambda>tc. name (func tc) = ''addCalendarEntry'') calls of
        None \<Rightarrow> (Inl (HTTPException 400 ''Invalid request''), db)
      | Some tool_call \<Rightarrow>
          (case load_args json_loads (arguments (func tool_call)) of
             Inl e \<Rightarrow> (Inl e, db)
           | Inr args \<Rightarrow>
               (let title = dict_get args ''title'' (JStr '''');
                    description = dict_get args ''description'' (JStr '''');
                    event_from_str = dict_get args ''event_from'' (JStr '''');
                    event_to_str = dict_get args ''event_to'' (JStr '''')
                in if \<not> truthy title \<or> \<not> truthy event_from_str \<or> \<not> truthy event_to_str
                   then (Inl (HTTPException 400 ''Missing required fields''), db)
                   else case parse_datetime fromisoformat event_from_str of
                          Inl e \<Rightarrow> (Inl e, db)
                        | Inr efrom \<Rightarrow>
                            (case parse_datetime fromisoformat event_to_str of
                               Inl e \<Rightarrow> (Inl e, db)
                             | Inr eto \<Rightarrow>
                                 (case add_event_row E title description efrom eto db of
                                    None \<Rightarrow> (Inl ServerError, db)
                                  | Some (calendar_event, db') \<Rightarrow>
                                      (case CalendarEventResponse_from_orm calendar_event of
                                         None \<Rightarrow> (Inl ServerError, db')
                                       | Some e \<Rightarrow>
                                           (Inr (respond tool_call (EventObj e)), db')))))))"

definition get_calendar_entries :: "ToolCall list \<Rightarrow> 't db \<Rightarrow> 't outcome" where
  "get_calendar_entries calls db =
     (case find (\<lambda>tc. name (func tc) = ''getCalendarEntries'') calls of
        None \<Rightarrow> (Inl (HTTPException 400 ''Invalid request''), db)
      | Some tool_call \<Rightarrow>
          (case those (map CalendarEventResponse_from_orm (calendar_events db)) of
             None \<Rightarrow> (Inl ServerError, db)
           | Some es \<Rightarrow> (Inr (respond tool_call (EventList es)), db)))"

definition delete_calendar_entry ::
  "(string \<Rightarrow> json option) \<Rightarrow> 't engine \<Rightarrow> ToolCall list \<Rightarrow> 't db \<Rightarrow> 't outcome" where
  "delete_calendar_entry json_loads E calls db =
     (case find (\<lambda>tc. name (func tc) = ''deleteCalendarEntry'') calls of
        None \<Rightarrow> (Inl (HTTPException 400 ''Invalid request''), db)
      | Some tool_call \<Rightarrow>
          (case load_args json_loads (arguments (func tool_call)) of
             Inl e \<Rightarrow> (Inl e, db)
           | Inr args \<Rightarrow>
               (let id_arg = dict_get args ''id'' JNull
                in if \<not> truthy id_arg then (Inl (HTTPException 400 ''Missing event ID''), db)
                   else if \<not> bindable id_arg then (Inl ServerError, db)
                   else case find (\<lambda>e. key_eq E (event_id e) id_arg) (calendar_events db) of
                          None \<Rightarrow> (Inl (HTTPException 404 ''Calendar event not found''), db)
                        | Some event \<Rightarrow>
                            (Inr (respond tool_call (Deleted id_arg)),
                             db\<lparr>calendar_events :=
                                  filter (\<lambda>e. event_id e \<noteq> event_id event)
                                         (calendar_events db)\<rparr>))))"

subsection \<open>Routing\<close>

datatype endpoint =
    CreateTodo | GetTodos | CompleteTodo | DeleteTodo
  | AddReminder | GetReminders | DeleteReminder
  | AddCalendarEntry | GetCalendarEntries | DeleteCalendarEntry

text \<open>The function name each route looks for in the tool calls.\<close>

fun expected_name :: "endpoint \<Rightarrow> string" where
  "expected_name CreateTodo = ''createTodo''"
| "expected_name GetTodos = ''getTodos''"
| "expected_name CompleteTodo = ''completeTodo''"
| "expected_name DeleteTodo = ''deleteTodo''"
| "expected_name AddReminder = ''addReminder''"
| "expected_name GetReminders = ''getReminders''"
| "expected_name DeleteReminder = ''deleteReminder''"
| "expected_name AddCalendarEntry = ''addCalendarEntry''"
| "expected_name GetCalendarEntries = ''getCalendarEntries''"
| "expected_name DeleteCalendarEntry = ''deleteCalendarEntry''"

fun handle ::
  "(string \<Rightarrow> json option) \<Rightarrow> (string \<Rightarrow> 't option) \<Rightarrow> 't engine \<Rightarrow> endpoint \<Rightarrow>
   ToolCall list \<Rightarrow> 't db \<Rightarrow> 't outcome" where
  "handle L F E CreateTodo calls db = create_todo L E calls db"
| "handle L F E GetTodos calls db = get_todos calls db"
| "handle L F E CompleteTodo calls db = complete_todo L E calls db"
| "handle L F E DeleteTodo calls db = delete_todo L E calls db"
| "handle L F E AddReminder calls db = add_reminder L E calls db"
| "handle L F E GetReminders calls db = get_reminders calls db"
| "handle L F E DeleteReminder calls db = delete_reminder L E calls db"
| "handle L F E AddCalendarEntry calls db = add_calendar_entry L F E calls db"
| "handle L F E GetCalendarEntries calls db = get_calendar_entries calls db"
| "handle L F E DeleteCalendarEntry calls db = delete_calendar_entry L E calls db"

text \<open>The detail of the 400 answer when no tool call matches; the todo routes
  capitalise it differently from the others.\<close>

fun invalid_request_detail :: "endpoint \<Rightarrow> string" where
  "invalid_request_detail CreateTodo = ''Invalid Request''"
| "invalid_request_detail GetTodos = ''Invalid Request''"
| "invalid_request_detail CompleteTodo = ''Invalid Request''"
| "invalid_request_detail DeleteTodo = ''Invalid Request''"
| "invalid_request_detail ep = ''Invalid request''"

subsection \<open>The endpoints that take an id\<close>

definition takes_id :: "endpoint \<Rightarrow> bool" where
  "takes_id ep =
     (ep = CompleteTodo \<or> ep = DeleteTodo \<or> ep = DeleteReminder \<or> ep = DeleteCalendarEntry)"

text \<open>The details of their 400 and 404 answers, as the handlers spell them.\<close>

fun missing_id_detail :: "endpoint \<Rightarrow> string" where
  "missing_id_detail DeleteReminder = ''Missing reminder ID''"
| "missing_id_detail DeleteCalendarEntry = ''Missing event ID''"
| "missing_id_detail ep = ''Missing To-Do ID''"





subsection \<open>Reachable stores\<close>

text \<open>The stores the service can be in: the empty one at start-up, and whatever a
  request to one of the endpoints leaves behind, whether it succeeded or not.\<close>

inductive reachable ::
  "(string \<Rightarrow> json option) \<Rightarrow> (string \<Rightarrow> 't option) \<Rightarrow> 't engine \<Rightarrow> 't db \<Rightarrow> bool"
  for L :: "string \<Rightarrow> json option" and F :: "string \<Rightarrow> 't option" and E :: "'t engine" where
  start: "reachable L F E empty_db"
| request:
    "reachable L F E db \<Longrightarrow> handle L F E ep calls db = (res, db') \<Longrightarrow> reachable L F E db'"

subsection \<open>An invariant of the store\<close>

text \<open>Keys are positive 64-bit integers.\<close>

definition store_inv :: "'t db \<Rightarrow> bool" where
  "store_inv db =
     ((\<forall>t \<in> set (todos db). 0 < todo_id t \<and> todo_id t \<le> max_key)
      \<and> (\<forall>r \<in> set (reminders db). 0 < reminder_id r \<and> reminder_id r \<le> max_key)
      \<and> (\<forall>e \<in> set (calendar_events db). 0 < event_id e \<and> event_id e \<le> max_key))"

subsection \<open>Sample requests\<close>

definition mk_call :: "string \<Rightarrow> string \<Rightarrow> arguments \<Rightarrow> ToolCall" where
  "mk_call i n a = \<lparr>tc_id = i, func = \<lparr>name = n, arguments = a\<rparr>\<rparr>"

text \<open>
  A parser that knows the encodings of two objects, a timestamp parser that knows
  one timestamp (read as the number 0) and rejects every other string, and an engine
  that reads the text \<open>1\<close> as the key 1, renders every real number as \<open>1.5\<close> and
  gives timestamps back as they are.
\<close>

definition sample_loads :: "string \<Rightarrow> json option" where
  "sample_loads s =
     (if s = ''{\"id\": 1}'' then Some (JObj [(''id'', JInt 1)])
      else if s = ''{\"reminder_text\": NaN, \"importance\": \"high\"}''
      then Some (JObj [(''reminder_text'', JFloat NaN), (''importance'', JStr ''high'')])
      else None)"

definition sample_fromisoformat :: "string \<Rightarrow> nat option" where
  "sample_fromisoformat s = (if s = ''2024-01-01T10:00:00'' then Some 0 else None)"

definition sample_engine :: "nat engine" where
  "sample_engine =
     \<lparr>text_key = (\<lambda>s. if s = ''1'' then Some 1 else None),
      real_text = (\<lambda>f. ''1.5''),
      naive = (\<lambda>d. d)\<rparr>"

section \<open>Evaluation and the tool-call scan\<close>

lemmas endpoint_defs =
  create_todo_def get_todos_def complete_todo_def delete_todo_def
  add_reminder_def get_reminders_def delete_reminder_def
  add_calendar_entry_def get_calendar_entries_def delete_calendar_entry_def

lemmas eval_defs =
  endpoint_defs mk_call_def sample_loads_def sample_fromisoformat_def sample_engine_def
  load_args_def dict_get_def add_todo_def add_reminder_row_def add_event_row_def
  next_id_def max_key_def key_eq_def empty_db_def
  Let_def respond_def TodoResponse_from_orm_def ReminderResponse_from_orm_def
  CalendarEventResponse_from_orm_def parse_datetime_def takes_id_def

lemma find_single: "find P calls = Some c \<Longrightarrow> find P [c] = Some c"
  by (auto simp: find_Some_iff)

lemma find_app:
  "find P (xs @ ys) = (case find P xs of None \<Rightarrow> find P ys | Some x \<Rightarrow> Some x)"
  by (induction xs) auto


lemma find_key_present:
  "n \<in> set (map f xs) \<Longrightarrow> \<exists>x. find (\<lambda>x. f x = n) xs = Some x \<and> f x = n"
  by (induction xs) auto




lemma max_key_pos: "0 < max_key"
  by (simp add: max_key_def)

lemma bindable_key: "0 < n \<Longrightarrow> n \<le> max_key \<Longrightarrow> bindable (JInt n)"
  using max_key_pos by simp

section \<open>Requests without a matching tool call\<close>

lemma find_no_match:
  "\<forall>tc \<in> set calls. name (func tc) \<noteq> n \<Longrightarrow> find (\<lambda>tc. name (func tc) = n) calls = None"
  by (simp add: find_None_iff)

text \<open>
  C2. On each of the ten endpoints, a request none of whose tool calls carries the
  endpoint's expected function name is answered with HTTP 400 (invalid request)
  and the store is left as it was, whatever other tool calls the list holds.
\<close>

theorem no_matching_call_invalid_request:
  assumes "\<forall>tc \<in> set calls. name (func tc) \<noteq> expected_name ep"
  shows "handle L F E ep calls db = (Inl (HTTPException 400 (invalid_request_detail ep)), db)"
proof -
  have "find (\<lambda>tc. name (func tc) = expected_name ep) calls = None"
    using assms by (rule find_no_match)
  then show ?thesis
    by (cases ep) (simp_all add: endpoint_defs)
qed

theorem no_matching_call_invalid_request_witness:
  "name (func (mk_call ''call_1'' ''getTodos'' (ArgDict []))) \<noteq> expected_name CreateTodo
   \<and> handle sample_loads sample_fromisoformat sample_engine CreateTodo
         [mk_call ''call_1'' ''getTodos'' (ArgDict [])] empty_db
       = (Inl (HTTPException 400 ''Invalid Request''), empty_db)"
  using no_matching_call_invalid_request
    [of "[mk_call ''call_1'' ''getTodos'' (ArgDict [])]" CreateTodo
        sample_loads sample_fromisoformat sample_engine empty_db]
  by (simp add: mk_call_def)

section \<open>Creating a todo without a title\<close>

text \<open>
  C1. The specification makes \<open>title\<close> a required argument of \<open>/create_todo/\<close>: a
  \<open>createTodo\<close> call whose arguments lack it is to be answered with HTTP 400 and no
  row persisted, as \<open>/add_calendar_entry/\<close> does for its own \<open>title\<close>, read with the
  same \<open>args.get('title', '')\<close>. \<open>create_todo\<close> has no such check: on the empty store,
  a call with the empty argument object is answered with \<open>"success"\<close> and a todo with
  the empty title is stored.
\<close>

theorem create_todo_stores_row_without_title:
  "create_todo sample_loads sample_engine
     [mk_call ''call_1'' ''createTodo'' (ArgDict [])] (empty_db :: nat db)
   = (Inr \<lparr>results = [\<lparr>toolCallId = ''call_1'', result = Success\<rparr>]\<rparr>,
      \<lparr>todos = [\<lparr>todo_id = 1, todo_title = JStr '''', todo_description = JStr '''',
                  completed = False\<rparr>],
       reminders = [], calendar_events = []\<rparr>)"
  by (simp add: eval_defs)

section \<open>The response envelope\<close>

lemma handle_first_match:
  assumes "find (\<lambda>tc. name (func tc) = expected_name ep) calls = Some c"
  shows "handle L F E ep calls db = handle L F E ep [c] db"
proof -
  have "find (\<lambda>tc. name (func tc) = expected_name ep) [c] = Some c"
    using assms by (rule find_single)
  with assms show ?thesis
    by (cases ep) (simp_all add: endpoint_defs del: find.simps)
qed

lemma handle_success_shape:
  assumes "handle L F E ep calls db = (Inr r, db')"
  shows "\<exists>c p. find (\<lambda>tc. name (func tc) = expected_name ep) calls = Some c
            \<and> r = \<lparr>results = [\<lparr>toolCallId = tc_id c, result = p\<rparr>]\<rparr>"
  using assms
  by (cases ep)
     (auto simp: endpoint_defs respond_def Let_def
           split: option.splits sum.splits if_splits prod.splits)

text \<open>
  C3. A successful response of any endpoint is \<open>{"results": [{"toolCallId": id,
  "result": payload}]}\<close> with exactly one result, whose \<open>toolCallId\<close> is the id of the
  first tool call in the list that carries the endpoint's function name. Later
  matching calls are ignored: every request with the same first matching call gets
  the same response and leaves the same store.
\<close>

theorem success_response_shape:
  assumes "handle L F E ep calls db = (Inr r, db')"
  shows "\<exists>c p. find (\<lambda>tc. name (func tc) = expected_name ep) calls = Some c
            \<and> r = \<lparr>results = [\<lparr>toolCallId = tc_id c, result = p\<rparr>]\<rparr>
            \<and> (\<forall>calls'. find (\<lambda>tc. name (func tc) = expected_name ep) calls' = Some c
                  \<longrightarrow> handle L F E ep calls' db = (Inr r, db'))"
proof -
  from assms obtain c p where
    c: "find (\<lambda>tc. name (func tc) = expected_name ep) calls = Some c"
    and r: "r = \<lparr>results = [\<lparr>toolCallId = tc_id c, result = p\<rparr>]\<rparr>"
    using handle_success_shape by blast
  have "handle L F E ep calls' db = (Inr r, db')"
    if "find (\<lambda>tc. name (func tc) = expected_name ep) calls' = Some c" for calls'
    using handle_first_match[OF that, of L F E db] handle_first_match[OF c, of L F E db] assms
    by simp
  with c r show ?thesis by blast
qed

theorem success_response_shape_witness:
  "handle sample_loads sample_fromisoformat sample_engine GetTodos
     [mk_call ''call_0'' ''createTodo'' (ArgDict []),
      mk_call ''call_1'' ''getTodos'' (ArgDict []),
      mk_call ''call_2'' ''getTodos'' (ArgDict [])] empty_db
   = (Inr \<lparr>results = [\<lparr>toolCallId = ''call_1'', result = TodoList []\<rparr>]\<rparr>, empty_db)
   \<and> (\<exists>c p. find (\<lambda>tc. name (func tc) = expected_name GetTodos)
               [mk_call ''call_0'' ''createTodo'' (ArgDict []),
                mk_call ''call_1'' ''getTodos'' (ArgDict []),
                mk_call ''call_2'' ''getTodos'' (ArgDict [])] = Some c
          \<and> \<lparr>results = [\<lparr>toolCallId = ''call_1'', result = TodoList []\<rparr>]\<rparr>
              = \<lparr>results = [\<lparr>toolCallId = tc_id c, result = p\<rparr>]\<rparr>
          \<and> handle sample_loads sample_fromisoformat sample_engine GetTodos [c] empty_db
              = (Inr \<lparr>results = [\<lparr>toolCallId = ''call_1'', result = TodoList []\<rparr>]\<rparr>,
                 empty_db))"
proof -
  let ?calls = "[mk_call ''call_0'' ''createTodo'' (ArgDict []),
                 mk_call ''call_1'' ''getTodos'' (ArgDict []),
                 mk_call ''call_2'' ''getTodos'' (ArgDict [])]"
  let ?r = "\<lparr>results = [\<lparr>toolCallId = ''call_1'', result = TodoList []\<rparr>]\<rparr> :: nat response"
  have run: "handle sample_loads sample_fromisoformat sample_engine GetTodos ?calls empty_db
               = (Inr ?r, empty_db)"
    by (simp add: eval_defs)
  from success_response_shape[OF run] obtain c p where
    c: "find (\<lambda>tc. name (func tc) = expected_name GetTodos) ?calls = Some c"
    and r: "?r = \<lparr>results = [\<lparr>toolCallId = tc_id c, result = p\<rparr>]\<rparr>"
    and rest: "\<forall>calls'. find (\<lambda>tc. name (func tc) = expected_name GetTodos) calls' = Some c
                 \<longrightarrow> handle sample_loads sample_fromisoformat sample_engine GetTodos calls'
                         empty_db
                       = (Inr ?r, empty_db)"
    by blast
  have "find (\<lambda>tc. name (func tc) = expected_name GetTodos) [c] = Some c"
    using c by (rule find_single)
  with rest have "handle sample_loads sample_fromisoformat sample_engine GetTodos [c] empty_db
                    = (Inr ?r, empty_db)"
    by blast
  with run c r show ?thesis by blast
qed

section \<open>Arguments as a string and as an object\<close>

text \<open>
  C4. On every endpoint, a request that carries a tool call's arguments as the JSON
  object \<open>a\<close> and the same request carrying them as a string that encodes \<open>a\<close>
  (a string the parser reads back as \<open>a\<close>) get the same response and leave the same
  store, wherever in the list that tool call stands.
\<close>

theorem string_and_object_arguments_agree:
  assumes "L s = Some (JObj a)"
  shows "handle L F E ep
           (pre @ \<lparr>tc_id = i, func = \<lparr>name = n, arguments = ArgStr s\<rparr>\<rparr> # post) db
       = handle L F E ep
           (pre @ \<lparr>tc_id = i, func = \<lparr>name = n, arguments = ArgDict a\<rparr>\<rparr> # post) db"
proof -
  have la: "load_args L (ArgStr s) = load_args L (ArgDict a)"
    using assms by (simp add: load_args_def)
  show ?thesis
  proof (cases "find (\<lambda>tc. name (func tc) = expected_name ep) pre")
    case (Some x)
    then show ?thesis
      by (cases ep) (simp_all add: endpoint_defs find_app)
  next
    case None
    then show ?thesis
      using la
      by (cases ep)
         (simp_all add: endpoint_defs find_app respond_def Let_def
                   split: sum.splits option.splits)
  qed
qed

theorem string_and_object_arguments_agree_witness:
  "sample_loads ''{\"id\": 1}'' = Some (JObj [(''id'', JInt 1)])
   \<and> handle sample_loads sample_fromisoformat sample_engine DeleteTodo
        ([] @ \<lparr>tc_id = ''call_1'',
                func = \<lparr>name = ''deleteTodo'', arguments = ArgStr ''{\"id\": 1}''\<rparr>\<rparr> # [])
        \<lparr>todos = [\<lparr>todo_id = 1, todo_title = JStr ''Buy milk'', todo_description = JStr '''',
                    completed = False\<rparr>],
         reminders = [], calendar_events = []\<rparr>
      = (Inr \<lparr>results = [\<lparr>toolCallId = ''call_1'', result = Success\<rparr>]\<rparr>, empty_db)
   \<and> handle sample_loads sample_fromisoformat sample_engine DeleteTodo
        ([] @ \<lparr>tc_id = ''call_1'',
                func = \<lparr>name = ''deleteTodo'', arguments = ArgDict [(''id'', JInt 1)]\<rparr>\<rparr> # [])
        \<lparr>todos = [\<lparr>todo_id = 1, todo_title = JStr ''Buy milk'', todo_description = JStr '''',
                    completed = False\<rparr>],
         reminders = [], calendar_events = []\<rparr>
      = (Inr \<lparr>results = [\<lparr>toolCallId = ''call_1'', result = Success\<rparr>]\<rparr>, empty_db)"
proof -
  have enc: "sample_loads ''{\"id\": 1}'' = Some (JObj [(''id'', JInt 1)])"
    by (simp add: sample_loads_def)
  have obj: "handle sample_loads sample_fromisoformat sample_engine DeleteTodo
        ([] @ \<lparr>tc_id = ''call_1'',
                func = \<lparr>name = ''deleteTodo'', arguments = ArgDict [(''id'', JInt 1)]\<rparr>\<rparr> # [])
        \<lparr>todos = [\<lparr>todo_id = 1, todo_title = JStr ''Buy milk'', todo_description = JStr '''',
                    completed = False\<rparr>],
         reminders = [], calendar_events = []\<rparr>
      = (Inr \<lparr>results = [\<lparr>toolCallId = ''call_1'', result = Success\<rparr>]\<rparr>,
         empty_db :: nat db)"
    by (simp add: delete_todo_def load_args_def dict_get_def respond_def empty_db_def
                  key_eq_def max_key_def)
  from string_and_object_arguments_agree
      [of sample_loads "''{\"id\": 1}''" "[(''id'', JInt 1)]" sample_fromisoformat
          sample_engine DeleteTodo
          "[]" "''call_1''" "''deleteTodo''" "[]"
          "\<lparr>todos = [\<lparr>todo_id = 1, todo_title = JStr ''Buy milk'',
                       todo_description = JStr '''', completed = False\<rparr>],
            reminders = [], calendar_events = []\<rparr>"]
    obj enc
  show ?thesis by simp
qed

section \<open>Calendar timestamps\<close>

text \<open>
  C5, as the specification states it: when either timestamp of an
  \<open>/add_calendar_entry/\<close> request is malformed, the request is answered with HTTP 400
  carrying a date-format message. The handler checks the required fields first: the
  specification's own scenario (\<open>event_from = "2024-01-01T10:00:00"\<close>,
  \<open>event_to = "not-a-date"\<close>, no title), with a parser that rejects \<open>not-a-date\<close>, is
  answered with HTTP 400 and the message for missing required fields.
\<close>

theorem malformed_timestamp_without_title_counterexample:
  "sample_fromisoformat ''not-a-date'' = None
   \<and> add_calendar_entry sample_loads sample_fromisoformat sample_engine
        [mk_call ''call_1'' ''addCalendarEntry''
           (ArgDict [(''event_from'', JStr ''2024-01-01T10:00:00''),
                     (''event_to'', JStr ''not-a-date'')])]
        empty_db
      = (Inl (HTTPException 400 ''Missing required fields''), empty_db)"
  by (simp add: eval_defs)

text \<open>
  C5, amended. For \<open>/add_calendar_entry/\<close>, \<open>event_from\<close> and \<open>event_to\<close> are required:
  when either is absent or empty the request is answered with HTTP 400 (missing
  required fields). When the entry has a non-empty title and both timestamps are
  given as non-empty strings, and \<open>datetime.fromisoformat\<close> rejects either of them,
  the request is answered with HTTP 400 carrying the date-format message. In both
  cases no calendar event is persisted: the store is unchanged. What counts as
  malformed is what \<open>datetime.fromisoformat\<close> rejects, not what ISO 8601 excludes.
\<close>

theorem malformed_timestamp_rejected:
  assumes "find (\<lambda>tc. name (func tc) = ''addCalendarEntry'') calls = Some c"
    and "load_args L (arguments (func c)) = Inr args"
  shows "(\<not> truthy (dict_get args ''event_from'' (JStr ''''))
            \<or> \<not> truthy (dict_get args ''event_to'' (JStr ''''))
          \<longrightarrow> add_calendar_entry L F E calls db
                = (Inl (HTTPException 400 ''Missing required fields''), db))
       \<and> (truthy (dict_get args ''title'' (JStr ''''))
            \<and> map_of args ''event_from'' = Some (JStr ef) \<and> ef \<noteq> []
            \<and> map_of args ''event_to'' = Some (JStr et) \<and> et \<noteq> []
            \<and> (F ef = None \<or> F et = None)
          \<longrightarrow> add_calendar_entry L F E calls db
                = (Inl (HTTPException 400 ''Invalid date format. Use ISO format.''), db))"
  using assms
  by (auto simp: add_calendar_entry_def dict_get_def parse_datetime_def Let_def
           split: option.splits)

theorem malformed_timestamp_rejected_witness:
  "find (\<lambda>tc. name (func tc) = ''addCalendarEntry'')
     [mk_call ''call_1'' ''addCalendarEntry''
        (ArgDict [(''title'', JStr ''Standup''),
                  (''event_from'', JStr ''2024-01-01T10:00:00''),
                  (''event_to'', JStr ''not-a-date'')])]
   = Some (mk_call ''call_1'' ''addCalendarEntry''
        (ArgDict [(''title'', JStr ''Standup''),
                  (''event_from'', JStr ''2024-01-01T10:00:00''),
                  (''event_to'', JStr ''not-a-date'')]))
   \<and> sample_fromisoformat ''not-a-date'' = None
   \<and> add_calendar_entry sample_loads sample_fromisoformat sample_engine
        [mk_call ''call_1'' ''addCalendarEntry''
           (ArgDict [(''title'', JStr ''Standup''),
                     (''event_from'', JStr ''2024-01-01T10:00:00''),
                     (''event_to'', JStr ''not-a-date'')])]
        empty_db
      = (Inl (HTTPException 400 ''Invalid date format. Use ISO format.''), empty_db)"
  using malformed_timestamp_rejected
    [of "[mk_call ''call_1'' ''addCalendarEntry''
           (ArgDict [(''title'', JStr ''Standup''),
                     (''event_from'', JStr ''2024-01-01T10:00:00''),
                     (''event_to'', JStr ''not-a-date'')])]"
        "mk_call ''call_1'' ''addCalendarEntry''
           (ArgDict [(''title'', JStr ''Standup''),
                     (''event_from'', JStr ''2024-01-01T10:00:00''),
                     (''event_to'', JStr ''not-a-date'')])"
        sample_loads
        "[(''title'', JStr ''Standup''),
          (''event_from'', JStr ''2024-01-01T10:00:00''),
          (''event_to'', JStr ''not-a-date'')]"
        sample_fromisoformat sample_engine empty_db "''2024-01-01T10:00:00''" "''not-a-date''"]
  by (simp add: mk_call_def load_args_def dict_get_def sample_fromisoformat_def)

section \<open>Looking a row up by id\<close>




text \<open>
  C9. For the same four endpoints, an \<open>id\<close> argument that is present but false in
  Python's sense (the integer 0, the empty string, null) is answered with HTTP 400
  and the endpoint's missing-id message, not with 404, and the store is unchanged.
\<close>

theorem falsy_id_rejected_as_missing:
  assumes "takes_id ep"
    and "find (\<lambda>tc. name (func tc) = expected_name ep) calls = Some c"
    and "load_args L (arguments (func c)) = Inr args"
    and "map_of args ''id'' = Some v"
    and "v = JInt 0 \<or> v = JStr '''' \<or> v = JNull \<or> \<not> truthy v"
  shows "handle L F E ep calls db = (Inl (HTTPException 400 (missing_id_detail ep)), db)
         \<and> status_code (HTTPException 400 (missing_id_detail ep)) \<noteq> 404"
proof -
  from assms(5) have "\<not> truthy v" by auto
  with assms(1-4) show ?thesis
    by (cases ep) (simp_all add: takes_id_def endpoint_defs dict_get_def)
qed

theorem falsy_id_rejected_as_missing_witness:
  "handle sample_loads sample_fromisoformat sample_engine CompleteTodo
     [mk_call ''call_1'' ''completeTodo'' (ArgDict [(''id'', JInt 0)])] empty_db
     = (Inl (HTTPException 400 ''Missing To-Do ID''), empty_db)
   \<and> handle sample_loads sample_fromisoformat sample_engine DeleteReminder
     [mk_call ''call_1'' ''deleteReminder'' (ArgDict [(''id'', JStr '''')])] empty_db
     = (Inl (HTTPException 400 ''Missing reminder ID''), empty_db)
   \<and> handle sample_loads sample_fromisoformat sample_engine DeleteCalendarEntry
     [mk_call ''call_1'' ''deleteCalendarEntry'' (ArgDict [(''id'', JNull)])] empty_db
     = (Inl (HTTPException 400 ''Missing event ID''), empty_db)"
  using falsy_id_rejected_as_missing
    [of CompleteTodo "[mk_call ''call_1'' ''completeTodo'' (ArgDict [(''id'', JInt 0)])]"
        "mk_call ''call_1'' ''completeTodo'' (ArgDict [(''id'', JInt 0)])"
        sample_loads "[(''id'', JInt 0)]" "JInt 0" sample_fromisoformat sample_engine empty_db]
    falsy_id_rejected_as_missing
    [of DeleteReminder "[mk_call ''call_1'' ''deleteReminder'' (ArgDict [(''id'', JStr '''')])]"
        "mk_call ''call_1'' ''deleteReminder'' (ArgDict [(''id'', JStr '''')])"
        sample_loads "[(''id'', JStr '''')]" "JStr ''''" sample_fromisoformat sample_engine
        empty_db]
    falsy_id_rejected_as_missing
    [of DeleteCalendarEntry
        "[mk_call ''call_1'' ''deleteCalendarEntry'' (ArgDict [(''id'', JNull)])]"
        "mk_call ''call_1'' ''deleteCalendarEntry'' (ArgDict [(''id'', JNull)])"
        sample_loads "[(''id'', JNull)]" JNull sample_fromisoformat sample_engine empty_db]
  by (simp add: takes_id_def mk_call_def load_args_def)

section \<open>Reachable stores keep the invariant\<close>

lemma fold_max_ge: "(a::int) \<le> fold max ids a"
proof (induction ids arbitrary: a)
  case Nil
  show ?case by simp
next
  case (Cons i ids)
  have "a \<le> max i a" by simp
  also have "\<dots> \<le> fold max ids (max i a)" by (rule Cons.IH)
  finally show ?case by simp
qed

lemma next_id_pos: "0 < next_id ids"
  using fold_max_ge[of 0 ids] by (simp add: next_id_def)

lemma store_inv_empty: "store_inv empty_db"
  by (simp add: store_inv_def empty_db_def)

lemma store_inv_step:
  assumes "store_inv db" and "handle L F E ep calls db = (res, db')"
  shows "store_inv db'"
proof (cases ep)
  case CreateTodo
  with assms show ?thesis
    by (auto simp: create_todo_def add_todo_def store_inv_def Let_def next_id_pos
             split: option.splits sum.splits if_splits)
next
  case GetTodos
  with assms show ?thesis
    by (auto simp: get_todos_def split: option.splits)
next
  case CompleteTodo
  have keep: "\<forall>t \<in> set (map (\<lambda>t. if todo_id t = k then t\<lparr>completed := True\<rparr> else t)
                              (todos db)). 0 < todo_id t \<and> todo_id t \<le> max_key" for k
    using assms(1) by (auto simp: store_inv_def)
  from assms CompleteTodo have "db' = db \<or>
      (\<exists>k. db' = db\<lparr>todos := map (\<lambda>t. if todo_id t = k then t\<lparr>completed := True\<rparr> else t)
                                   (todos db)\<rparr>)"
    by (auto simp: complete_todo_def Let_def split: option.splits sum.splits if_splits)
  then show ?thesis
  proof
    assume "db' = db"
    with assms(1) show ?thesis by simp
  next
    assume "\<exists>k. db' = db\<lparr>todos := map (\<lambda>t. if todo_id t = k then t\<lparr>completed := True\<rparr> else t)
                                   (todos db)\<rparr>"
    then obtain k where
      "db' = db\<lparr>todos := map (\<lambda>t. if todo_id t = k then t\<lparr>completed := True\<rparr> else t)
                                   (todos db)\<rparr>" by blast
    with assms(1) keep[of k] show ?thesis
      by (simp add: store_inv_def del: set_map)
  qed
next
  case DeleteTodo
  with assms show ?thesis
    by (auto simp: delete_todo_def store_inv_def Let_def
             split: option.splits sum.splits if_splits)
next
  case AddReminder
  with assms show ?thesis
    by (auto simp: add_reminder_def add_reminder_row_def store_inv_def Let_def next_id_pos
             split: option.splits sum.splits if_splits)
next
  case GetReminders
  with assms show ?thesis
    by (auto simp: get_reminders_def split: option.splits)
next
  case DeleteReminder
  with assms show ?thesis
    by (auto simp: delete_reminder_def store_inv_def Let_def
             split: option.splits sum.splits if_splits)
next
  case AddCalendarEntry
  with assms show ?thesis
    by (auto simp: add_calendar_entry_def add_event_row_def store_inv_def Let_def next_id_pos
             split: option.splits sum.splits if_splits)
next
  case GetCalendarEntries
  with assms show ?thesis
    by (auto simp: get_calendar_entries_def split: option.splits)
next
  case DeleteCalendarEntry
  with assms show ?thesis
    by (auto simp: delete_calendar_entry_def store_inv_def Let_def
             split: option.splits sum.splits if_splits)
qed

lemma reachable_store_inv: "reachable L F E db \<Longrightarrow> store_inv db"
  by (induction rule: reachable.induct) (auto intro: store_inv_empty store_inv_step)

section \<open>Completing a todo twice\<close>

lemma complete_todo_by_id:
  assumes "find (\<lambda>tc. name (func tc) = ''completeTodo'') calls = Some c"
    and "load_args L (arguments (func c)) = Inr args"
    and "map_of args ''id'' = Some (JInt n)"
    and "0 < n" and "n \<le> max_key"
    and "n \<in> set (map todo_id (todos db))"
  shows "complete_todo L E calls db =
           (Inr (respond c Success),
            db\<lparr>todos := map (\<lambda>t. if todo_id t = n then t\<lparr>completed := True\<rparr> else t)
                             (todos db)\<rparr>)"
proof -
  from assms(6) obtain t where "find (\<lambda>t. todo_id t = n) (todos db) = Some t" "todo_id t = n"
    using find_key_present[of n todo_id "todos db"] by auto
  moreover have "bindable (JInt n)" using assms(4,5) by (rule bindable_key)
  moreover have "key_eq E i (JInt n) = (i = n)" for i by (simp add: key_eq_def eq_commute)
  moreover have "n \<noteq> 0" using assms(4) by simp
  ultimately show ?thesis
    using assms(1-3)
    by (simp add: complete_todo_def dict_get_def del: bindable.simps)
qed

lemma complete_keeps_ids:
  "map todo_id (map (\<lambda>t. if todo_id t = n then t\<lparr>completed := True\<rparr> else t) ts)
   = map todo_id ts"
  by (induction ts) simp_all

lemma complete_keeps_title:
  "map todo_title (map (\<lambda>t. if todo_id t = n then t\<lparr>completed := True\<rparr> else t) ts)
   = map todo_title ts"
  by (induction ts) simp_all

lemma complete_keeps_description:
  "map todo_description (map (\<lambda>t. if todo_id t = n then t\<lparr>completed := True\<rparr> else t) ts)
   = map todo_description ts"
  by (induction ts) simp_all

lemma complete_sets_flag:
  assumes "t \<in> set (map (\<lambda>t. if todo_id t = n then t\<lparr>completed := True\<rparr> else t) ts)"
    and "todo_id t = n"
  shows "completed t"
proof -
  let ?f = "\<lambda>t. if todo_id t = n then t\<lparr>completed := True\<rparr> else t"
  from assms(1) have "t \<in> ?f ` set ts" by (simp only: set_map)
  then obtain u where t: "t = ?f u" and u: "u \<in> set ts" by (rule imageE)
  show ?thesis
  proof (cases "todo_id u = n")
    case True
    with t show ?thesis by simp
  next
    case False
    with t have "t = u" by simp
    with assms(2) False show ?thesis by simp
  qed
qed

lemma complete_twice:
  "map (\<lambda>t. if todo_id t = n then t\<lparr>completed := True\<rparr> else t)
     (map (\<lambda>t. if todo_id t = n then t\<lparr>completed := True\<rparr> else t) ts)
   = map (\<lambda>t. if todo_id t = n then t\<lparr>completed := True\<rparr> else t) ts"
  by (induction ts) simp_all

text \<open>
  C7. \<open>completeTodo\<close> is idempotent. For a store the service can reach and the id \<open>n\<close>
  of a todo in it, two \<open>complete_todo\<close> requests for \<open>n\<close> in a row both succeed; the
  todo with that id is completed after the first, and the second leaves the store exactly
  as the first left it. The first changes nothing but \<open>completed\<close>: ids, titles
  and descriptions of the todos, the reminders and the calendar events stay as they were.
\<close>

theorem complete_todo_idempotent:
  assumes "reachable L F E db"
    and "n \<in> set (map todo_id (todos db))"
    and "find (\<lambda>tc. name (func tc) = ''completeTodo'') calls1 = Some c1"
    and "load_args L (arguments (func c1)) = Inr args1"
    and "map_of args1 ''id'' = Some (JInt n)"
    and "find (\<lambda>tc. name (func tc) = ''completeTodo'') calls2 = Some c2"
    and "load_args L (arguments (func c2)) = Inr args2"
    and "map_of args2 ''id'' = Some (JInt n)"
  shows "\<exists>db1. complete_todo L E calls1 db
                 = (Inr \<lparr>results = [\<lparr>toolCallId = tc_id c1, result = Success\<rparr>]\<rparr>, db1)
             \<and> complete_todo L E calls2 db1
                 = (Inr \<lparr>results = [\<lparr>toolCallId = tc_id c2, result = Success\<rparr>]\<rparr>, db1)
             \<and> n \<in> set (map todo_id (todos db1))
             \<and> (\<forall>t \<in> set (todos db1). todo_id t = n \<longrightarrow> completed t)
             \<and> map todo_id (todos db1) = map todo_id (todos db)
             \<and> map todo_title (todos db1) = map todo_title (todos db)
             \<and> map todo_description (todos db1) = map todo_description (todos db)
             \<and> reminders db1 = reminders db
             \<and> calendar_events db1 = calendar_events db"
proof -
  let ?f = "\<lambda>t. if todo_id t = n then t\<lparr>completed := True\<rparr> else t"
  let ?db1 = "db\<lparr>todos := map ?f (todos db)\<rparr>"
  have "store_inv db" using assms(1) by (rule reachable_store_inv)
  with assms(2) have n: "0 < n" and m: "n \<le> max_key" by (auto simp: store_inv_def)
  have ids: "map todo_id (map ?f (todos db)) = map todo_id (todos db)"
    by (rule complete_keeps_ids)
  have first: "complete_todo L E calls1 db = (Inr (respond c1 Success), ?db1)"
    using assms(3-5) n m assms(2) by (rule complete_todo_by_id)
  have n1: "n \<in> set (map todo_id (todos ?db1))"
    using assms(2) ids by simp
  have "complete_todo L E calls2 ?db1
          = (Inr (respond c2 Success), ?db1\<lparr>todos := map ?f (todos ?db1)\<rparr>)"
    using assms(6-8) n m n1 by (rule complete_todo_by_id)
  then have second: "complete_todo L E calls2 ?db1 = (Inr (respond c2 Success), ?db1)"
    by (simp add: complete_twice)
  have flag: "\<forall>t \<in> set (todos ?db1). todo_id t = n \<longrightarrow> completed t"
  proof (intro ballI impI)
    fix t
    assume mem: "t \<in> set (todos ?db1)" and id: "todo_id t = n"
    from mem have "t \<in> set (map ?f (todos db))" by simp
    then show "completed t" using id by (rule complete_sets_flag)
  qed
  have titles: "map todo_title (todos ?db1) = map todo_title (todos db)"
    using complete_keeps_title[of n "todos db"] by simp
  have descs: "map todo_description (todos ?db1) = map todo_description (todos db)"
    using complete_keeps_description[of n "todos db"] by simp
  have ids1: "map todo_id (todos ?db1) = map todo_id (todos db)"
    using ids by simp
  have others: "reminders ?db1 = reminders db" "calendar_events ?db1 = calendar_events db"
    by simp_all
  have r1: "respond c1 Success = \<lparr>results = [\<lparr>toolCallId = tc_id c1, result = Success\<rparr>]\<rparr>"
    and r2: "respond c2 Success = \<lparr>results = [\<lparr>toolCallId = tc_id c2, result = Success\<rparr>]\<rparr>"
    by (simp_all add: respond_def)
  show ?thesis
    unfolding r1[symmetric] r2[symmetric]
    using first second n1 flag titles descs ids1 others
    by (intro exI[of _ ?db1] conjI)
qed

theorem complete_todo_idempotent_witness:
  "reachable sample_loads sample_fromisoformat sample_engine
     \<lparr>todos = [\<lparr>todo_id = 1, todo_title = JStr ''Buy milk'', todo_description = JStr '''',
                 completed = False\<rparr>],
      reminders = [], calendar_events = []\<rparr>
   \<and> complete_todo sample_loads sample_engine
       [mk_call ''call_1'' ''completeTodo'' (ArgDict [(''id'', JInt 1)])]
       (\<lparr>todos = [\<lparr>todo_id = 1, todo_title = JStr ''Buy milk'', todo_description = JStr '''',
                   completed = False\<rparr>],
         reminders = [], calendar_events = []\<rparr> :: nat db)
     = (Inr \<lparr>results = [\<lparr>toolCallId = ''call_1'', result = Success\<rparr>]\<rparr>,
        \<lparr>todos = [\<lparr>todo_id = 1, todo_title = JStr ''Buy milk'', todo_description = JStr '''',
                    completed = True\<rparr>],
         reminders = [], calendar_events = []\<rparr>)
   \<and> complete_todo sample_loads sample_engine
       [mk_call ''call_2'' ''completeTodo'' (ArgStr ''{\"id\": 1}'')]
       (\<lparr>todos = [\<lparr>todo_id = 1, todo_title = JStr ''Buy milk'', todo_description = JStr '''',
                   completed = True\<rparr>],
         reminders = [], calendar_events = []\<rparr> :: nat db)
     = (Inr \<lparr>results = [\<lparr>toolCallId = ''call_2'', result = Success\<rparr>]\<rparr>,
        \<lparr>todos = [\<lparr>todo_id = 1, todo_title = JStr ''Buy milk'', todo_description = JStr '''',
                    completed = True\<rparr>],
         reminders = [], calendar_events = []\<rparr>)"
proof -
  let ?db0 = "\<lparr>todos = [\<lparr>todo_id = 1, todo_title = JStr ''Buy milk'',
                          todo_description = JStr '''', completed = False\<rparr>],
               reminders = [], calendar_events = []\<rparr> :: nat db"
  let ?dbC = "\<lparr>todos = [\<lparr>todo_id = 1, todo_title = JStr ''Buy milk'',
                          todo_description = JStr '''', completed = True\<rparr>],
               reminders = [], calendar_events = []\<rparr> :: nat db"
  let ?c0 = "mk_call ''call_0'' ''createTodo'' (ArgDict [(''title'', JStr ''Buy milk'')])"
  let ?c1 = "mk_call ''call_1'' ''completeTodo'' (ArgDict [(''id'', JInt 1)])"
  let ?c2 = "mk_call ''call_2'' ''completeTodo'' (ArgStr ''{\"id\": 1}'')"
  have "handle sample_loads sample_fromisoformat sample_engine CreateTodo [?c0] empty_db
          = (Inr \<lparr>results = [\<lparr>toolCallId = ''call_0'', result = Success\<rparr>]\<rparr>, ?db0)"
    by (simp add: eval_defs)
  with reachable.start
  have reach: "reachable sample_loads sample_fromisoformat sample_engine ?db0"
    by (rule reachable.request)
  have mem: "1 \<in> set (map todo_id (todos ?db0))" by simp
  have f1: "find (\<lambda>tc. name (func tc) = ''completeTodo'') [?c1] = Some ?c1"
    by (simp add: mk_call_def)
  have a1: "load_args sample_loads (arguments (func ?c1)) = Inr [(''id'', JInt 1)]"
    by (simp add: mk_call_def load_args_def)
  have f2: "find (\<lambda>tc. name (func tc) = ''completeTodo'') [?c2] = Some ?c2"
    by (simp add: mk_call_def)
  have a2: "load_args sample_loads (arguments (func ?c2)) = Inr [(''id'', JInt 1)]"
    by (simp add: mk_call_def load_args_def sample_loads_def)
  have m: "map_of [(''id'', JInt 1)] ''id'' = Some (JInt 1)" by simp
  from complete_todo_idempotent[OF reach mem f1 a1 m f2 a2 m] obtain db1 where
    first: "complete_todo sample_loads sample_engine [?c1] ?db0
              = (Inr \<lparr>results = [\<lparr>toolCallId = tc_id ?c1, result = Success\<rparr>]\<rparr>, db1)"
    and second: "complete_todo sample_loads sample_engine [?c2] db1
              = (Inr \<lparr>results = [\<lparr>toolCallId = tc_id ?c2, result = Success\<rparr>]\<rparr>, db1)"
    by blast
  have "complete_todo sample_loads sample_engine [?c1] ?db0
          = (Inr \<lparr>results = [\<lparr>toolCallId = ''call_1'', result = Success\<rparr>]\<rparr>, ?dbC)"
    by (simp add: eval_defs)
  with first have db1: "db1 = ?dbC" by simp
  from first second reach show ?thesis
    unfolding db1 by (simp add: mk_call_def)
qed

section \<open>Required text fields\<close>

text \<open>A required field that is absent or the empty string is rejected with HTTP 400
  and the store is left as it was.\<close>

lemma dict_get_absent_or_empty:
  "map_of args k = None \<or> map_of args k = Some (JStr '''')
   \<Longrightarrow> \<not> truthy (dict_get args k JNull) \<and> \<not> truthy (dict_get args k (JStr ''''))"
  by (auto simp: dict_get_def)

lemma add_reminder_missing:
  assumes "find (\<lambda>tc. name (func tc) = ''addReminder'') calls = Some c"
    and "load_args L (arguments (func c)) = Inr args"
    and "\<not> truthy (dict_get args ''reminder_text'' JNull)
         \<or> \<not> truthy (dict_get args ''importance'' JNull)"
  shows "add_reminder L E calls db = (Inl (HTTPException 400 ''Missing required fields''), db)"
  using assms by (simp add: add_reminder_def Let_def)

lemma add_calendar_entry_missing_title:
  assumes "find (\<lambda>tc. name (func tc) = ''addCalendarEntry'') calls = Some c"
    and "load_args L (arguments (func c)) = Inr args"
    and "\<not> truthy (dict_get args ''title'' (JStr ''''))"
  shows "add_calendar_entry L F E calls db
           = (Inl (HTTPException 400 ''Missing required fields''), db)"
  using assms by (simp add: add_calendar_entry_def Let_def)

text \<open>
  C10. Every reminder created through \<open>/add_reminder/\<close> is to have a non-empty
  \<open>reminder_text\<close> and \<open>importance\<close>, and every calendar event created through
  \<open>/add_calendar_entry/\<close> a non-empty \<open>title\<close>, in every store the service can reach.
  The handlers' test \<open>if not field\<close> rejects an absent and an empty field (the two
  lemmas above), but it lets not-a-number through, which \<open>json.loads\<close> reads from
  \<open>NaN\<close> and which is true in Python's sense; the store keeps it as null. On the empty
  store, \<open>/add_reminder/\<close> with \<open>{"reminder_text": NaN, "importance": "high"}\<close> fails
  with a server error after it has stored a reminder whose \<open>reminder_text\<close> is null,
  and \<open>/add_calendar_entry/\<close> with the title not-a-number stores an event whose
  \<open>title\<close> is null.
\<close>

theorem required_text_field_null_after_nan:
  "add_reminder sample_loads sample_engine
     [mk_call ''call_1'' ''addReminder''
        (ArgStr ''{\"reminder_text\": NaN, \"importance\": \"high\"}'')]
     empty_db
   = (Inl ServerError,
      \<lparr>todos = [],
       reminders = [\<lparr>reminder_id = 1, reminder_text = JNull, importance = JStr ''high''\<rparr>],
       calendar_events = []\<rparr>)
   \<and> add_calendar_entry sample_loads sample_fromisoformat sample_engine
       [mk_call ''call_2'' ''addCalendarEntry''
          (ArgDict [(''title'', JFloat NaN),
                    (''event_from'', JStr ''2024-01-01T10:00:00''),
                    (''event_to'', JStr ''2024-01-01T10:00:00'')])]
       empty_db
     = (Inl ServerError,
        \<lparr>todos = [], reminders = [],
         calendar_events = [\<lparr>event_id = 1, event_title = JNull, event_description = JStr '''',
                              event_from = 0, event_to = 0\<rparr>]\<rparr>)"
  by (simp add: eval_defs)

theorem required_text_field_null_after_nan_witness:
  "reminder_text (hd (reminders (snd
     (add_reminder sample_loads sample_engine
        [mk_call ''call_1'' ''addReminder''
           (ArgStr ''{\"reminder_text\": NaN, \"importance\": \"high\"}'')]
        empty_db)))) = JNull
   \<and> event_title (hd (calendar_events (snd
     (add_calendar_entry sample_loads sample_fromisoformat sample_engine
        [mk_call ''call_2'' ''addCalendarEntry''
           (ArgDict [(''title'', JFloat NaN),
                     (''event_from'', JStr ''2024-01-01T10:00:00''),
                     (''event_to'', JStr ''2024-01-01T10:00:00'')])]
        empty_db)))) = JNull"
  using required_text_field_null_after_nan by simp

section \<open>Listing a table\<close>

lemma those_all_valid:
  "\<forall>x \<in> set xs. f x = Some x \<Longrightarrow> those (map f xs) = Some xs"
  by (induction xs) simp_all

lemma get_todos_all_rows:
  assumes "find (\<lambda>tc. name (func tc) = ''getTodos'') calls = Some c"
    and "\<forall>t \<in> set (todos db). todo_title t \<noteq> JNull"
  shows "get_todos calls db = (Inr (respond c (TodoList (todos db))), db)"
proof -
  have "those (map TodoResponse_from_orm (todos db)) = Some (todos db)"
    using assms(2) by (intro those_all_valid) (simp add: TodoResponse_from_orm_def)
  with assms(1) show ?thesis by (simp add: get_todos_def)
qed

text \<open>
  C8. Each \<open>get_*\<close> endpoint is to return all rows of its table: after N successful
  creates and M successful deletes, N - M items. \<open>get_todos\<close> returns every row when
  no title is null (the lemma above). But \<open>create_todo\<close> stores a null title as it is
  given, and \<open>TodoResponse\<close> declares \<open>title: str\<close>: after one successful create with
  \<open>{"title": null}\<close> on the empty store, \<open>get_todos\<close> fails with a server error instead
  of returning one item.
\<close>

theorem get_todos_fails_after_null_title:
  "create_todo sample_loads sample_engine
     [mk_call ''call_1'' ''createTodo'' (ArgDict [(''title'', JNull)])] (empty_db :: nat db)
   = (Inr \<lparr>results = [\<lparr>toolCallId = ''call_1'', result = Success\<rparr>]\<rparr>,
      \<lparr>todos = [\<lparr>todo_id = 1, todo_title = JNull, todo_description = JStr '''',
                  completed = False\<rparr>],
       reminders = [], calendar_events = []\<rparr>)
   \<and> get_todos [mk_call ''call_2'' ''getTodos'' (ArgDict [])]
       (\<lparr>todos = [\<lparr>todo_id = 1, todo_title = JNull, todo_description = JStr '''',
                   completed = False\<rparr>],
         reminders = [], calendar_events = []\<rparr> :: nat db)
     = (Inl ServerError,
        \<lparr>todos = [\<lparr>todo_id = 1, todo_title = JNull, todo_description = JStr '''',
                    completed = False\<rparr>],
         reminders = [], calendar_events = []\<rparr>)"
  by (simp add: eval_defs)

end
